theory Spec2Isabelle
  imports Main
begin

section \<open>Text\<close>

text \<open>
  A Python \<^verbatim>\<open>str\<close> is a sequence of Unicode code points; it is modelled as the list of
  their numbers. \<open>ascii\<close> turns a literal of the source into that list.
\<close>

type_synonym pystr = "nat list"

definition ascii :: "string \<Rightarrow> pystr" where
  "ascii s = map of_char s"

text \<open>
  \<^verbatim>\<open>str.lower()\<close>. On a string of ASCII characters it maps \<^verbatim>\<open>A\<close>..\<^verbatim>\<open>Z\<close> to
  \<^verbatim>\<open>a\<close>..\<^verbatim>\<open>z\<close> and leaves the rest. On any other string Python follows the Unicode
  case tables, which are not part of this repository: they are the parameter \<open>ulower\<close>.
\<close>

definition ascii_lower :: "nat \<Rightarrow> nat" where
  "ascii_lower c = (if 65 \<le> c \<and> c \<le> 90 then c + 32 else c)"

definition py_lower :: "(pystr \<Rightarrow> pystr) \<Rightarrow> pystr \<Rightarrow> pystr" where
  "py_lower ulower s = (if list_all (\<lambda>c. c < 128) s then map ascii_lower s else ulower s)"

text \<open>\<^verbatim>\<open>s.startswith(p)\<close>, and \<^verbatim>\<open>sub in s\<close> on strings: \<open>sub\<close> starts at some position of \<open>s\<close>.\<close>

fun startswith :: "pystr \<Rightarrow> pystr \<Rightarrow> bool" where
  "startswith s [] = True"
| "startswith [] (p # ps) = False"
| "startswith (c # cs) (p # ps) = (c = p \<and> startswith cs ps)"

fun str_contains :: "pystr \<Rightarrow> pystr \<Rightarrow> bool" where
  "str_contains [] sub = (sub = [])"
| "str_contains (c # cs) sub = (startswith (c # cs) sub \<or> str_contains cs sub)"

section \<open>Redaction policy\<close>

text \<open>
  \<^verbatim>\<open>REDACTED_FIELDS\<close> is a Python set; \<^verbatim>\<open>any\<close> over it does not depend on the order
  of iteration, so a list stands for it.
\<close>

definition REDACTED_FIELDS :: "pystr list" where
  "REDACTED_FIELDS =
     [ascii ''system name'', ascii ''system description'', ascii ''host name'',
      ascii ''ip address'', ascii ''mac address'', ascii ''serial number'', ascii ''redacted'']"

definition should_redact :: "(pystr \<Rightarrow> pystr) \<Rightarrow> pystr \<Rightarrow> bool" where
  "should_redact ulower metric_name =
     (let metric_lower = py_lower ulower metric_name
      in list_ex (\<lambda>field. str_contains metric_lower field) REDACTED_FIELDS)"

section \<open>Data model\<close>

text \<open>
  The objects of the API's answers are Python dicts with string keys. A key may be absent:
  \<^verbatim>\<open>d[k]\<close> then raises \<^verbatim>\<open>KeyError\<close>. The properties the item request asks for
  (\<^verbatim>\<open>name\<close>, \<^verbatim>\<open>lastvalue\<close>, \<^verbatim>\<open>units\<close>, \<^verbatim>\<open>lastclock\<close>) come as strings. Of a host
  only \<^verbatim>\<open>host["hostid"]\<close> is read, and it is only handed back to the API, so the type
  of a host's properties is left open.
\<close>

type_synonym 'v pydict = "pystr \<rightharpoonup> 'v"

type_synonym item = "pystr pydict"

datatype py_error = KeyError pystr | ApiError pystr

definition getitem :: "'v pydict \<Rightarrow> pystr \<Rightarrow> py_error + 'v" where
  "getitem d k = (case d k of None \<Rightarrow> Inl (KeyError k) | Some v \<Rightarrow> Inr v)"

text \<open>
  One entry of \<^verbatim>\<open>filtered_metrics\<close>: the dict literal of lines 148 to 154, with its
  five keys in the order they are written. The field \<open>val\<close> is the key \<^verbatim>\<open>"value"\<close>.
\<close>

record export_record =
  host :: pystr
  metric :: pystr
  val :: pystr
  units :: pystr
  timestamp :: pystr

text \<open>
  The monitoring API, as \<^verbatim>\<open>main\<close> sees it: the answer of \<^verbatim>\<open>zabbix_get_hosts()\<close> and,
  for the \<open>n\<close>-th call of \<^verbatim>\<open>zabbix_get_items\<close> and its argument, the answer of that call.
  A failed request, or an answer with no \<^verbatim>\<open>"result"\<close>, is an error.
\<close>

record 'v zabbix =
  zabbix_get_hosts :: "py_error + 'v pydict list"
  zabbix_get_items :: "nat \<Rightarrow> 'v \<Rightarrow> py_error + item list"

section \<open>Dates and numbers as text\<close>

text \<open>What \<^verbatim>\<open>datetime.now()\<close> returns.\<close>

record datetime =
  year :: nat
  month :: nat
  day :: nat
  hour :: nat
  minute :: nat
  second :: nat
  microsecond :: nat

text \<open>\<^verbatim>\<open>str(n)\<close> of a natural number, and \<^verbatim>\<open>s.zfill(w)\<close> of a string with no sign.\<close>

fun str_of_nat :: "nat \<Rightarrow> pystr" where
  "str_of_nat n = (if n < 10 then [48 + n] else str_of_nat (n div 10) @ [48 + n mod 10])"

declare str_of_nat.simps [simp del]

definition zfill :: "nat \<Rightarrow> pystr \<Rightarrow> pystr" where
  "zfill w s = replicate (w - length s) 48 @ s"

text \<open>
  \<^verbatim>\<open>strftime\<close> with the directives the two format strings of the source use:
  \<^verbatim>\<open>%Y\<close> (four digits from the year 1000 on), \<^verbatim>\<open>%m\<close>, \<^verbatim>\<open>%d\<close>, \<^verbatim>\<open>%H\<close> and \<^verbatim>\<open>%M\<close>
  (two digits each), and \<^verbatim>\<open>%%\<close>. Any other character stands for itself.
\<close>

definition directive :: "datetime \<Rightarrow> nat \<Rightarrow> pystr" where
  "directive d e =
     (if e = 89 then zfill 4 (str_of_nat (year d))
      else if e = 109 then zfill 2 (str_of_nat (month d))
      else if e = 100 then zfill 2 (str_of_nat (day d))
      else if e = 72 then zfill 2 (str_of_nat (hour d))
      else if e = 77 then zfill 2 (str_of_nat (minute d))
      else if e = 37 then [37]
      else [37, e])"

fun strftime :: "datetime \<Rightarrow> pystr \<Rightarrow> pystr" where
  "strftime d [] = []"
| "strftime d [c] = [c]"
| "strftime d (c # e # cs) =
     (if c = 37 then directive d e @ strftime d cs else c # strftime d (e # cs))"

section \<open>Collecting the records\<close>

text \<open>
  The body of the inner loop of \<^verbatim>\<open>main\<close> (lines 144 to 154) for one item. A redacted
  item is changed in place before the record is built from it, so the record reads the
  item after the two assignments.
\<close>

definition record_of_item :: "(pystr \<Rightarrow> pystr) \<Rightarrow> pystr \<Rightarrow> item \<Rightarrow> py_error + export_record" where
  "record_of_item ulower ts item =
     (case getitem item (ascii ''name'') of
        Inl e \<Rightarrow> Inl e
      | Inr name \<Rightarrow>
          let item' =
                (if should_redact ulower name
                 then item(ascii ''name'' \<mapsto> ascii ''REDACTED'',
                           ascii ''lastvalue'' \<mapsto> ascii ''REDACTED'')
                 else item)
          in (case getitem item' (ascii ''name'') of
                Inl e \<Rightarrow> Inl e
              | Inr m \<Rightarrow>
                  (case getitem item' (ascii ''lastvalue'') of
                     Inl e \<Rightarrow> Inl e
                   | Inr v \<Rightarrow>
                       (case getitem item' (ascii ''units'') of
                          Inl e \<Rightarrow> Inl e
                        | Inr u \<Rightarrow>
                            Inr \<lparr>host = ascii ''[redacted]'', metric = m, val = v,
                                 units = u, timestamp = ts\<rparr>))))"

text \<open>The inner loop: \<open>acc\<close> is \<^verbatim>\<open>filtered_metrics\<close>. The first exception ends it.\<close>

fun items_loop ::
  "(pystr \<Rightarrow> pystr) \<Rightarrow> pystr \<Rightarrow> item list \<Rightarrow> export_record list \<Rightarrow> py_error + export_record list"
where
  "items_loop ulower ts [] acc = Inr acc"
| "items_loop ulower ts (item # items) acc =
     (case record_of_item ulower ts item of
        Inl e \<Rightarrow> Inl e
      | Inr r \<Rightarrow> items_loop ulower ts items (acc @ [r]))"

text \<open>The outer loop over the hosts; \<open>n\<close> counts the calls of \<^verbatim>\<open>zabbix_get_items\<close>.\<close>

fun hosts_loop ::
  "(pystr \<Rightarrow> pystr) \<Rightarrow> (nat \<Rightarrow> 'v \<Rightarrow> py_error + item list) \<Rightarrow> pystr \<Rightarrow> nat \<Rightarrow>
   'v pydict list \<Rightarrow> export_record list \<Rightarrow> py_error + export_record list"
where
  "hosts_loop ulower get_items ts n [] acc = Inr acc"
| "hosts_loop ulower get_items ts n (h # hs) acc =
     (case getitem h (ascii ''hostid'') of
        Inl e \<Rightarrow> Inl e
      | Inr hostid \<Rightarrow>
          (case get_items n hostid of
             Inl e \<Rightarrow> Inl e
           | Inr items \<Rightarrow>
               (case items_loop ulower ts items acc of
                  Inl e \<Rightarrow> Inl e
                | Inr acc' \<Rightarrow> hosts_loop ulower get_items ts (Suc n) hs acc')))"

text \<open>
  Lines 134 to 154 of \<^verbatim>\<open>main\<close>: the hosts are fetched, the clock is read once for the
  run's timestamp, and the loops fill \<^verbatim>\<open>filtered_metrics\<close>. The result is the timestamp
  and the list, or the exception that ends the run.
\<close>

definition collect ::
  "(pystr \<Rightarrow> pystr) \<Rightarrow> 'v zabbix \<Rightarrow> datetime \<Rightarrow> py_error + (pystr \<times> export_record list)"
where
  "collect ulower api now =
     (case zabbix_get_hosts api of
        Inl e \<Rightarrow> Inl e
      | Inr hosts \<Rightarrow>
          let ts = strftime now (ascii ''%Y-%m-%d_%H-%M'')
          in (case hosts_loop ulower (zabbix_get_items api) ts 0 hosts [] of
                Inl e \<Rightarrow> Inl e
              | Inr filtered_metrics \<Rightarrow> Inr (ts, filtered_metrics)))"

section \<open>The summary\<close>

text \<open>
  \<^verbatim>\<open>generate_readme\<close> has one parameter, \<^verbatim>\<open>metrics_count\<close>, and calls \<^verbatim>\<open>datetime.now()\<close> in
  its body. The second argument of the definition is no parameter of the source function: it
  is the state of the wall clock at that call, which the caller can neither pass nor see.
  The f-string writes \<^verbatim>\<open>{{\<close> and \<^verbatim>\<open>}}\<close> as single braces. The
  warning sign of the third line is the two code points U+26A0 and U+FE0F.
\<close>

definition quoted :: "pystr \<Rightarrow> pystr" where
  "quoted s = [34] @ s @ [34]"

definition generate_readme :: "nat \<Rightarrow> datetime \<Rightarrow> pystr" where
  "generate_readme metrics_count now =
     ascii ''# Zabbix Metrics Archive'' @ [10] @
     [10] @
     [9888, 65039] @
     ascii '' **Note**: Sensitive fields like hostnames and system descriptions are redacted.'' @ [10] @
     [10] @
     ascii ''## Dataset Info'' @ [10] @
     ascii ''- Last Updated: '' @ strftime now (ascii ''%Y-%m-%d %H:%M UTC'') @ [10] @
     ascii ''- Total Metrics Collected: '' @ str_of_nat metrics_count @ [10] @
     ascii ''- Update Frequency: Every 3 hours'' @ [10] @
     [10] @
     ascii ''## Data Structure'' @ [10] @
     ascii ''```json'' @ [10] @
     ascii ''{'' @ [10] @
     ascii ''    '' @ quoted (ascii ''host'') @ ascii '': '' @ quoted (ascii ''redacted'') @ ascii '','' @ [10] @
     ascii ''    '' @ quoted (ascii ''metric'') @ ascii '': '' @ quoted (ascii ''CPU Usage'') @ ascii '','' @ [10] @
     ascii ''    '' @ quoted (ascii ''value'') @ ascii '': '' @ quoted (ascii ''12.5'') @ ascii '','' @ [10] @
     ascii ''    '' @ quoted (ascii ''units'') @ ascii '': '' @ quoted (ascii ''%'') @ ascii '','' @ [10] @
     ascii ''    '' @ quoted (ascii ''timestamp'') @ ascii '': '' @ quoted (ascii ''2024-05-21T12:00:00'') @ [10] @
     ascii ''}'' @ [10] @
     ascii ''```'' @ [10]"

section \<open>Writing JSON\<close>

text \<open>
  The values \<^verbatim>\<open>json.dump\<close> is given by \<^verbatim>\<open>main\<close>: a list of dicts of strings. A dict
  is written in the order of its keys, so an object is a list of pairs.
\<close>

datatype json = JString pystr | JArray "json list" | JObject "(pystr \<times> json) list"

definition hexdigit :: "nat \<Rightarrow> nat" where
  "hexdigit d = (if d < 10 then 48 + d else 87 + d)"

definition hex4 :: "nat \<Rightarrow> pystr" where
  "hex4 n = [hexdigit (n div 4096 mod 16), hexdigit (n div 256 mod 16),
             hexdigit (n div 16 mod 16), hexdigit (n mod 16)]"

text \<open>
  \<^verbatim>\<open>json.encoder.py_encode_basestring_ascii\<close> (\<^verbatim>\<open>ensure_ascii\<close> is on by default): the
  quote and the backslash are escaped, the characters from the space to the tilde are
  kept, five control characters have a short escape, and every other code point is written
  \<^verbatim>\<open>\uXXXX\<close>, one above U+FFFF as its two surrogates.
\<close>

definition escape_char :: "nat \<Rightarrow> pystr" where
  "escape_char c =
     (if c = 34 then [92, 34]
      else if c = 92 then [92, 92]
      else if c = 10 then [92, 110]
      else if c = 13 then [92, 114]
      else if c = 9 then [92, 116]
      else if c = 8 then [92, 98]
      else if c = 12 then [92, 102]
      else if 32 \<le> c \<and> c \<le> 126 then [c]
      else if c < 65536 then [92, 117] @ hex4 c
      else (let n = c - 65536;
                s1 = 55296 + n div 1024 mod 1024;
                s2 = 56320 + n mod 1024
            in [92, 117] @ hex4 s1 @ [92, 117] @ hex4 s2))"

definition py_encode_basestring_ascii :: "pystr \<Rightarrow> pystr" where
  "py_encode_basestring_ascii s = [34] @ concat (map escape_char s) @ [34]"

text \<open>\<^verbatim>\<open>sep.join(parts)\<close>.\<close>

fun join :: "pystr \<Rightarrow> pystr list \<Rightarrow> pystr" where
  "join sep [] = []"
| "join sep [x] = x"
| "join sep (x # y # ys) = x @ sep @ join sep (y # ys)"

text \<open>
  \<^verbatim>\<open>JSONEncoder.iterencode\<close> with \<^verbatim>\<open>indent=2\<close>, at nesting level \<open>lvl\<close>: an element
  starts on a line of its own, indented by two spaces for each level; the item separator
  is a comma and the key separator a colon and a space. An empty list is \<^verbatim>\<open>[]\<close>, an
  empty dict \<^verbatim>\<open>{}\<close>.
\<close>

definition newline_indent :: "nat \<Rightarrow> pystr" where
  "newline_indent lvl = 10 # replicate (2 * lvl) 32"

fun iterencode :: "nat \<Rightarrow> json \<Rightarrow> pystr" where
  "iterencode lvl (JString s) = py_encode_basestring_ascii s"
| "iterencode lvl (JArray xs) =
     (if xs = [] then ascii ''[]''
      else [91] @ newline_indent (Suc lvl) @
           join ([44] @ newline_indent (Suc lvl)) (map (iterencode (Suc lvl)) xs) @
           newline_indent lvl @ [93])"
| "iterencode lvl (JObject kvs) =
     (if kvs = [] then ascii ''{}''
      else [123] @ newline_indent (Suc lvl) @
           join ([44] @ newline_indent (Suc lvl))
             (map (\<lambda>kv. py_encode_basestring_ascii (fst kv) @ ascii '': '' @
                         iterencode (Suc lvl) (snd kv)) kvs) @
           newline_indent lvl @ [125])"

text \<open>The dict of one record, and \<^verbatim>\<open>json.dump(filtered_metrics, f, indent=2)\<close>.\<close>

definition json_of_record :: "export_record \<Rightarrow> json" where
  "json_of_record r =
     JObject [(ascii ''host'', JString (host r)), (ascii ''metric'', JString (metric r)),
              (ascii ''value'', JString (val r)), (ascii ''units'', JString (units r)),
              (ascii ''timestamp'', JString (timestamp r))]"

definition json_dump :: "export_record list \<Rightarrow> pystr" where
  "json_dump filtered_metrics = iterencode 0 (JArray (map json_of_record filtered_metrics))"

section \<open>Writing CSV\<close>

text \<open>
  \<^verbatim>\<open>csv.writer\<close> with the default dialect: the delimiter is a comma, the quote character
  a double quote, the line ends with CR LF, and a field is quoted only when it holds the
  delimiter, a quote or a character of the line end; a quote inside is doubled. A row of
  one empty field is written as two quotes.
\<close>

definition csv_needs_quotes :: "pystr \<Rightarrow> bool" where
  "csv_needs_quotes field = list_ex (\<lambda>c. c = 44 \<or> c = 34 \<or> c = 13 \<or> c = 10) field"

definition csv_field :: "pystr \<Rightarrow> pystr" where
  "csv_field field =
     (if csv_needs_quotes field
      then [34] @ concat (map (\<lambda>c. if c = 34 then [34, 34] else [c]) field) @ [34]
      else field)"

definition writerow :: "pystr list \<Rightarrow> pystr" where
  "writerow row =
     (if row = [[]] then [34, 34] else join [44] (map csv_field row)) @ [13, 10]"

text \<open>
  \<^verbatim>\<open>csv.DictWriter\<close> with the five field names of line 176: \<^verbatim>\<open>writeheader\<close> writes the
  names, \<^verbatim>\<open>writerows\<close> one row for each dict, its values in the order of the names.
\<close>

definition fieldnames :: "pystr list" where
  "fieldnames = [ascii ''host'', ascii ''metric'', ascii ''value'', ascii ''units'',
                 ascii ''timestamp'']"

definition dict_to_list :: "export_record \<Rightarrow> pystr list" where
  "dict_to_list r = [host r, metric r, val r, units r, timestamp r]"

definition csv_dump :: "export_record list \<Rightarrow> pystr" where
  "csv_dump filtered_metrics =
     writerow fieldnames @ concat (map (\<lambda>r. writerow (dict_to_list r)) filtered_metrics)"

section \<open>The run\<close>

text \<open>
  What a run of \<^verbatim>\<open>main\<close> that reaches line 178 has written: the three files with their
  text. The clock is read a second time inside \<^verbatim>\<open>generate_readme\<close> (\<open>now'\<close>). An
  exception before that point is caught by \<^verbatim>\<open>main\<close>, which prints it and exits with
  status 1: then nothing has been written. Writing the files and the git commands that
  follow are taken to succeed.
\<close>

record run_output =
  readme_content :: pystr
  json_file :: pystr
  json_content :: pystr
  csv_file :: pystr
  csv_content :: pystr

definition main :: "(pystr \<Rightarrow> pystr) \<Rightarrow> 'v zabbix \<Rightarrow> datetime \<Rightarrow> datetime \<Rightarrow> py_error + run_output" where
  "main ulower api now now' =
     (case collect ulower api now of
        Inl e \<Rightarrow> Inl e
      | Inr (ts, filtered_metrics) \<Rightarrow>
          Inr \<lparr>readme_content = generate_readme (length filtered_metrics) now',
               json_file = ascii ''data/'' @ ts @ ascii ''.json'',
               json_content = json_dump filtered_metrics,
               csv_file = ascii ''data/'' @ ts @ ascii ''.csv'',
               csv_content = csv_dump filtered_metrics\<rparr>)"

section \<open>Reading JSON\<close>











section \<open>Reading CSV\<close>











section \<open>Unicode text\<close>








section \<open>Example inputs\<close>

text \<open>The inputs of the worked examples below: items of two hosts, one with no units, three hosts
  (an empty name, no name, a name that is itself sensitive) and a time of the clock.\<close>

definition example_host_name :: item where
  "example_host_name =
     [ascii ''name'' \<mapsto> ascii ''Host Name'', ascii ''lastvalue'' \<mapsto> ascii ''srv1'',
      ascii ''units'' \<mapsto> [], ascii ''lastclock'' \<mapsto> ascii ''0'']"

definition example_cpu_usage :: item where
  "example_cpu_usage =
     [ascii ''name'' \<mapsto> ascii ''CPU Usage'', ascii ''lastvalue'' \<mapsto> ascii ''12.5'',
      ascii ''units'' \<mapsto> ascii ''%'', ascii ''lastclock'' \<mapsto> ascii ''0'']"

definition example_no_units :: item where
  "example_no_units =
     [ascii ''name'' \<mapsto> ascii ''CPU Usage'', ascii ''lastvalue'' \<mapsto> ascii ''12.5'']"

definition example_hosts :: "pystr option pydict list" where
  "example_hosts =
     [[ascii ''hostid'' \<mapsto> Some (ascii ''10084''), ascii ''host'' \<mapsto> Some []],
      [ascii ''hostid'' \<mapsto> Some (ascii ''10085''), ascii ''host'' \<mapsto> None],
      [ascii ''hostid'' \<mapsto> Some (ascii ''10086''), ascii ''host'' \<mapsto> Some (ascii ''Host Name 7'')]]"

definition example_api :: "pystr option zabbix" where
  "example_api =
     \<lparr>zabbix_get_hosts = Inr example_hosts,
      zabbix_get_items = (\<lambda>n hostid.
        if hostid = Some (ascii ''10084'') then Inr [example_host_name, example_cpu_usage]
        else if hostid = Some (ascii ''10085'') then Inr []
        else Inr [example_cpu_usage])\<rparr>"

definition example_now :: datetime where
  "example_now = \<lparr>year = 2024, month = 5, day = 21, hour = 12, minute = 0, second = 7,
                   microsecond = 0\<rparr>"

text \<open>
  Two records with characters that need care: a comma and quotes in a name, a line break,
  an accented letter, a code point above U+FFFF and a quote in a value.
\<close>

definition example_awkward :: export_record where
  "example_awkward =
     \<lparr>host = ascii ''[redacted]'', metric = ascii ''CPU, '' @ quoted (ascii ''user'') @ ascii '' time'',
      val = [13, 10, 233, 128512, 34], units = [], timestamp = ascii ''2024-05-21_12-00''\<rparr>"

definition example_comma :: export_record where
  "example_comma =
     \<lparr>host = ascii ''[redacted]'', metric = ascii ''CPU, total'', val = ascii ''12.5'',
      units = ascii ''%'', timestamp = ascii ''2024-05-21_12-00''\<rparr>"

text \<open>
  Two records that do not survive: a value that is a high surrogate followed by a low one,
  and a value of 131073 characters.
\<close>

definition example_surrogates :: export_record where
  "example_surrogates =
     \<lparr>host = ascii ''[redacted]'', metric = ascii ''note'', val = [55296, 56320],
      units = [], timestamp = ascii ''2024-05-21_12-00''\<rparr>"

definition example_long_value :: export_record where
  "example_long_value =
     \<lparr>host = ascii ''[redacted]'', metric = ascii ''log'', val = replicate 131073 97,
      units = [], timestamp = ascii ''2024-05-21_12-00''\<rparr>"

definition no_hosts_api :: "pystr option zabbix" where
  "no_hosts_api = \<lparr>zabbix_get_hosts = Inr [], zabbix_get_items = (\<lambda>n hostid. Inl (ApiError []))\<rparr>"

section \<open>Properties of the text operations\<close>

lemma startswith_iff: "startswith s p \<longleftrightarrow> (\<exists>q. s = p @ q)"
  by (induction s p rule: startswith.induct) auto

lemma str_contains_iff: "str_contains s sub \<longleftrightarrow> (\<exists>p q. s = p @ sub @ q)"
proof (induction s)
  case Nil
  then show ?case by auto
next
  case (Cons c cs)
  show ?case
  proof
    assume "str_contains (c # cs) sub"
    then consider "startswith (c # cs) sub" | "str_contains cs sub" by auto
    then show "\<exists>p q. c # cs = p @ sub @ q"
    proof cases
      case 1
      then obtain q where "c # cs = sub @ q" by (auto simp: startswith_iff)
      then have "c # cs = [] @ sub @ q" by simp
      then show ?thesis by blast
    next
      case 2
      then obtain p q where "cs = p @ sub @ q" using Cons.IH by auto
      then have "c # cs = (c # p) @ sub @ q" by simp
      then show ?thesis by blast
    qed
  next
    assume "\<exists>p q. c # cs = p @ sub @ q"
    then obtain p q where pq: "c # cs = p @ sub @ q" by blast
    show "str_contains (c # cs) sub"
    proof (cases p)
      case Nil
      with pq have "startswith (c # cs) sub" by (auto simp: startswith_iff)
      then show ?thesis by simp
    next
      case (Cons a p')
      with pq have "cs = p' @ sub @ q" by simp
      then have "str_contains cs sub" using Cons.IH by blast
      then show ?thesis by simp
    qed
  qed
qed

section \<open>Properties of the loops\<close>

lemma getitem_simps [simp]:
  "d k = None \<Longrightarrow> getitem d k = Inl (KeyError k)"
  "d k = Some v \<Longrightarrow> getitem d k = Inr v"
  by (simp_all add: getitem_def)

lemma key_neq [simp]:
  "ascii ''name'' \<noteq> ascii ''lastvalue''" "ascii ''name'' \<noteq> ascii ''units''" "ascii ''name'' \<noteq> ascii ''lastclock''"
  "ascii ''lastvalue'' \<noteq> ascii ''name''" "ascii ''lastvalue'' \<noteq> ascii ''units''" "ascii ''lastvalue'' \<noteq> ascii ''lastclock''"
  "ascii ''units'' \<noteq> ascii ''name''" "ascii ''units'' \<noteq> ascii ''lastvalue''" "ascii ''units'' \<noteq> ascii ''lastclock''"
  "ascii ''lastclock'' \<noteq> ascii ''name''" "ascii ''lastclock'' \<noteq> ascii ''lastvalue''" "ascii ''lastclock'' \<noteq> ascii ''units''"
  by (simp_all add: ascii_def)

lemma record_of_item_cases:
  "record_of_item ulower ts item =
     (case item (ascii ''name'') of
        None \<Rightarrow> Inl (KeyError (ascii ''name''))
      | Some name \<Rightarrow>
          if should_redact ulower name then
            (case item (ascii ''units'') of
               None \<Rightarrow> Inl (KeyError (ascii ''units''))
             | Some u \<Rightarrow> Inr \<lparr>host = ascii ''[redacted]'', metric = ascii ''REDACTED'',
                              val = ascii ''REDACTED'', units = u, timestamp = ts\<rparr>)
          else
            (case item (ascii ''lastvalue'') of
               None \<Rightarrow> Inl (KeyError (ascii ''lastvalue''))
             | Some v \<Rightarrow>
                 (case item (ascii ''units'') of
                    None \<Rightarrow> Inl (KeyError (ascii ''units''))
                  | Some u \<Rightarrow> Inr \<lparr>host = ascii ''[redacted]'', metric = name,
                                   val = v, units = u, timestamp = ts\<rparr>)))"
  by (simp add: record_of_item_def getitem_def Let_def split: option.splits)

lemma record_of_item_host_ts:
  "record_of_item ulower ts item = Inr r \<Longrightarrow> host r = ascii ''[redacted]'' \<and> timestamp r = ts"
  by (auto simp: record_of_item_cases split: option.splits if_splits)

lemma items_loop_Inr:
  "items_loop ulower ts items acc = Inr snap \<longleftrightarrow>
     (\<exists>rs. list_all2 (\<lambda>i r. record_of_item ulower ts i = Inr r) items rs \<and> snap = acc @ rs)"
proof (induction items arbitrary: acc)
  case Nil
  then show ?case by auto
next
  case (Cons i items)
  show ?case
  proof (cases "record_of_item ulower ts i")
    case (Inl e)
    then show ?thesis by (auto simp: list_all2_Cons1)
  next
    case (Inr r)
    then show ?thesis by (auto simp: Cons.IH list_all2_Cons1)
  qed
qed

lemma hosts_loop_Inr:
  "hosts_loop ulower get_items ts n hs acc = Inr snap \<Longrightarrow>
     \<exists>rs. snap = acc @ rs \<and> (\<forall>r \<in> set rs. \<exists>i. record_of_item ulower ts i = Inr r)"
proof (induction hs arbitrary: n acc)
  case Nil
  then show ?case by simp
next
  case (Cons h hs)
  from Cons.prems obtain hostid items acc' where
    items: "items_loop ulower ts items acc = Inr acc'" and
    rest: "hosts_loop ulower get_items ts (Suc n) hs acc' = Inr snap"
    by (auto split: sum.splits)
  from items obtain rs1 where
    rs1: "list_all2 (\<lambda>i r. record_of_item ulower ts i = Inr r) items rs1" "acc' = acc @ rs1"
    by (auto simp: items_loop_Inr)
  from Cons.IH [OF rest] obtain rs2 where
    rs2: "snap = acc' @ rs2" "\<forall>r \<in> set rs2. \<exists>i. record_of_item ulower ts i = Inr r"
    by blast
  have "\<forall>r \<in> set rs1. \<exists>i. record_of_item ulower ts i = Inr r"
    using rs1(1) by (induction rule: list_all2_induct) auto
  with rs1 rs2 have "snap = acc @ (rs1 @ rs2) \<and>
      (\<forall>r \<in> set (rs1 @ rs2). \<exists>i. record_of_item ulower ts i = Inr r)"
    by auto
  then show ?case by blast
qed

lemma collect_records:
  assumes "collect ulower api now = Inr (ts, snap)"
  shows "ts = strftime now (ascii ''%Y-%m-%d_%H-%M'')"
    and "\<forall>r \<in> set snap. \<exists>i. record_of_item ulower ts i = Inr r"
  using assms hosts_loop_Inr [of ulower "zabbix_get_items api" "strftime now (ascii ''%Y-%m-%d_%H-%M'')" 0 _ "[]" snap]
  by (auto simp: collect_def Let_def split: sum.splits)

lemma hosts_loop_hostid_only:
  "map (\<lambda>h. h (ascii ''hostid'')) hs = map (\<lambda>h. h (ascii ''hostid'')) hs' \<Longrightarrow>
   hosts_loop ulower get_items ts n hs acc = hosts_loop ulower get_items ts n hs' acc"
proof (induction hs arbitrary: hs' n acc)
  case Nil
  then show ?case by simp
next
  case (Cons h hs)
  then obtain h' hs'' where hs': "hs' = h' # hs''" by (cases hs') auto
  with Cons.prems have same: "h (ascii ''hostid'') = h' (ascii ''hostid'')"
    and rest: "map (\<lambda>h. h (ascii ''hostid'')) hs = map (\<lambda>h. h (ascii ''hostid'')) hs''"
    by auto
  show ?case
    unfolding hs' using same Cons.IH [OF rest]
    by (simp add: getitem_def split: sum.splits option.splits)
qed

lemma strftime_run:
  "strftime now (ascii ''%Y-%m-%d_%H-%M'') =
     zfill 4 (str_of_nat (year now)) @ ascii ''-'' @ zfill 2 (str_of_nat (month now)) @ ascii ''-'' @
     zfill 2 (str_of_nat (day now)) @ ascii ''_'' @ zfill 2 (str_of_nat (hour now)) @ ascii ''-'' @
     zfill 2 (str_of_nat (minute now))"
  by (simp add: ascii_def directive_def)

lemma length_str_of_nat: "0 < k \<Longrightarrow> n < 10 ^ k \<Longrightarrow> length (str_of_nat n) \<le> k"
proof (induction k arbitrary: n)
  case 0
  then show ?case by simp
next
  case (Suc k)
  show ?case
  proof (cases "n < 10")
    case True
    then show ?thesis by (simp add: str_of_nat.simps [of n])
  next
    case False
    with Suc.prems have "0 < k" by (cases k) auto
    moreover from Suc.prems have "n div 10 < 10 ^ k" by (simp add: less_mult_imp_div_less mult.commute)
    ultimately have "length (str_of_nat (n div 10)) \<le> k" by (rule Suc.IH)
    with False show ?thesis by (simp add: str_of_nat.simps [of n])
  qed
qed

lemma length_zfill: "length s \<le> w \<Longrightarrow> length (zfill w s) = w"
  by (simp add: zfill_def)

lemma items_loop_all:
  "list_all2 (\<lambda>i r. record_of_item ulower ts i = Inr r) items rs \<Longrightarrow>
   items_loop ulower ts items acc = Inr (acc @ rs)"
  by (simp add: items_loop_Inr)

section \<open>The worked example\<close>

lemmas example_defs = example_host_name_def example_cpu_usage_def example_no_units_def
  example_hosts_def example_api_def example_now_def no_hosts_api_def
  example_awkward_def example_comma_def example_surrogates_def example_long_value_def

lemma should_redact_examples:
  "should_redact (\<lambda>s. s) (ascii ''Host Name'')"
  "\<not> should_redact (\<lambda>s. s) (ascii ''CPU Usage'')"
  "should_redact ulower (ascii ''REDACTED'')"
  by (simp_all add: should_redact_def py_lower_def ascii_def ascii_lower_def REDACTED_FIELDS_def)

lemma example_collect:
  "collect (\<lambda>s. s) example_api example_now =
     Inr (ascii ''2024-05-21_12-00'',
       [\<lparr>host = ascii ''[redacted]'', metric = ascii ''REDACTED'', val = ascii ''REDACTED'',
          units = [], timestamp = ascii ''2024-05-21_12-00''\<rparr>,
        \<lparr>host = ascii ''[redacted]'', metric = ascii ''CPU Usage'', val = ascii ''12.5'',
          units = ascii ''%'', timestamp = ascii ''2024-05-21_12-00''\<rparr>,
        \<lparr>host = ascii ''[redacted]'', metric = ascii ''CPU Usage'', val = ascii ''12.5'',
          units = ascii ''%'', timestamp = ascii ''2024-05-21_12-00''\<rparr>])"
  by (simp add: collect_def example_defs record_of_item_def getitem_def should_redact_def
      py_lower_def ascii_lower_def REDACTED_FIELDS_def directive_def zfill_def str_of_nat.simps
      ascii_def Let_def)


section \<open>The redaction policy decides by substring\<close>

text \<open>
  C1. \<open>should_redact\<close> is true of a metric name exactly when the lower-cased name has one
  of the seven fixed strings as a substring, anywhere in it; so it is false of every name
  that has none of them.
\<close>

theorem should_redact_iff_substring:
  "should_redact ulower name \<longleftrightarrow>
     (\<exists>field \<in> {ascii ''system name'', ascii ''system description'', ascii ''host name'',
        ascii ''ip address'', ascii ''mac address'', ascii ''serial number'', ascii ''redacted''}.
      \<exists>p q. py_lower ulower name = p @ field @ q)"
  unfolding should_redact_def Let_def REDACTED_FIELDS_def list_ex_iff str_contains_iff
  by simp

theorem should_redact_iff_substring_witness:
  "should_redact (\<lambda>s. s) (ascii ''IP Address Pool Usage'') \<and>
   should_redact (\<lambda>s. s) (ascii ''Host Name Extended'') \<and>
   \<not> should_redact (\<lambda>s. s) (ascii ''CPU Usage'') \<and>
   (\<exists>p q. py_lower (\<lambda>s. s) (ascii ''IP Address Pool Usage'') = p @ ascii ''ip address'' @ q)"
proof -
  have a: "should_redact (\<lambda>s. s) (ascii ''IP Address Pool Usage'')"
    and b: "should_redact (\<lambda>s. s) (ascii ''Host Name Extended'')"
    and c: "\<not> should_redact (\<lambda>s. s) (ascii ''CPU Usage'')"
    by (simp_all add: should_redact_def py_lower_def ascii_def ascii_lower_def REDACTED_FIELDS_def)
  have "py_lower (\<lambda>s. s) (ascii ''IP Address Pool Usage'') = [] @ ascii ''ip address'' @ ascii '' pool usage''"
    by (simp add: py_lower_def ascii_def ascii_lower_def)
  then have d: "\<exists>p q. py_lower (\<lambda>s. s) (ascii ''IP Address Pool Usage'') = p @ ascii ''ip address'' @ q"
    by blast
  from a b c d should_redact_iff_substring [of "\<lambda>s. s" "ascii ''CPU Usage''"]
  show ?thesis by blast
qed


section \<open>The fields of a record\<close>

text \<open>
  C2. For an item whose name is redacted, the record has the marker \<^verbatim>\<open>REDACTED\<close> as
  metric and as value and the item's own units; for any other item the record has the
  item's name, last value and units unchanged.
\<close>

theorem redacted_record_fields:
  "item (ascii ''name'') = Some name \<Longrightarrow> item (ascii ''units'') = Some u \<Longrightarrow>
   (if should_redact ulower name
    then record_of_item ulower ts item =
           Inr \<lparr>host = ascii ''[redacted]'', metric = ascii ''REDACTED'',
                val = ascii ''REDACTED'', units = u, timestamp = ts\<rparr>
    else \<forall>v. item (ascii ''lastvalue'') = Some v \<longrightarrow>
           record_of_item ulower ts item =
             Inr \<lparr>host = ascii ''[redacted]'', metric = name, val = v, units = u,
                  timestamp = ts\<rparr>)"
  by (simp add: record_of_item_cases)

theorem redacted_record_fields_witness:
  "record_of_item (\<lambda>s. s) (ascii ''T'') example_host_name =
     Inr \<lparr>host = ascii ''[redacted]'', metric = ascii ''REDACTED'', val = ascii ''REDACTED'',
          units = [], timestamp = ascii ''T''\<rparr> \<and>
   record_of_item (\<lambda>s. s) (ascii ''T'') example_cpu_usage =
     Inr \<lparr>host = ascii ''[redacted]'', metric = ascii ''CPU Usage'', val = ascii ''12.5'',
          units = ascii ''%'', timestamp = ascii ''T''\<rparr>"
proof -
  have n1: "example_host_name (ascii ''name'') = Some (ascii ''Host Name'')"
    and u1: "example_host_name (ascii ''units'') = Some []"
    and n2: "example_cpu_usage (ascii ''name'') = Some (ascii ''CPU Usage'')"
    and u2: "example_cpu_usage (ascii ''units'') = Some (ascii ''%'')"
    and v2: "example_cpu_usage (ascii ''lastvalue'') = Some (ascii ''12.5'')"
    by (simp_all add: example_defs ascii_def)
  show ?thesis
    using redacted_record_fields [OF n1 u1, of "\<lambda>s. s" "ascii ''T''"]
      redacted_record_fields [OF n2 u2, of "\<lambda>s. s" "ascii ''T''"] v2
    by (simp add: should_redact_examples)
qed

text \<open>
  C3. Every record of a run has the marker \<^verbatim>\<open>[redacted]\<close> as its host, which is not the
  marker of a redacted metric; and two runs whose hosts agree on \<^verbatim>\<open>hostid\<close> give the same
  result, whatever the other properties of the hosts are, their names included.
\<close>

theorem host_field_is_marker:
  "(collect ulower api now = Inr (ts, snap) \<longrightarrow> (\<forall>r \<in> set snap. host r = ascii ''[redacted]'')) \<and>
   ascii ''[redacted]'' \<noteq> ascii ''REDACTED'' \<and>
   (map (\<lambda>h. h (ascii ''hostid'')) hosts = map (\<lambda>h. h (ascii ''hostid'')) hosts' \<longrightarrow>
      collect ulower (api\<lparr>zabbix_get_hosts := Inr hosts\<rparr>) now =
      collect ulower (api\<lparr>zabbix_get_hosts := Inr hosts'\<rparr>) now)"
proof (intro conjI impI)
  assume "collect ulower api now = Inr (ts, snap)"
  from collect_records(2) [OF this] show "\<forall>r \<in> set snap. host r = ascii ''[redacted]''"
    by (auto dest: record_of_item_host_ts)
next
  show "ascii ''[redacted]'' \<noteq> ascii ''REDACTED''" by (simp add: ascii_def)
next
  assume "map (\<lambda>h. h (ascii ''hostid'')) hosts = map (\<lambda>h. h (ascii ''hostid'')) hosts'"
  then show "collect ulower (api\<lparr>zabbix_get_hosts := Inr hosts\<rparr>) now =
      collect ulower (api\<lparr>zabbix_get_hosts := Inr hosts'\<rparr>) now"
    by (simp add: collect_def Let_def hosts_loop_hostid_only [of hosts hosts'])
qed

theorem host_field_is_marker_witness:
  "\<exists>ts snap. collect (\<lambda>s. s) example_api example_now = Inr (ts, snap) \<and> length snap = 3 \<and>
     list_all (\<lambda>r. host r = ascii ''[redacted]'') snap"
proof -
  from example_collect obtain ts snap where
    run: "collect (\<lambda>s. s) example_api example_now = Inr (ts, snap)" and len: "length snap = 3"
    by simp
  from host_field_is_marker [of "\<lambda>s. s" example_api example_now ts snap] run
  have "\<forall>r \<in> set snap. host r = ascii ''[redacted]''" by blast
  with run len show ?thesis by (auto simp: list_all_iff)
qed

section \<open>The timestamp of a run\<close>

lemma length_zfill_str_of_nat:
  "0 < k \<Longrightarrow> n < 10 ^ k \<Longrightarrow> length (zfill k (str_of_nat n)) = k"
  by (simp add: length_zfill length_str_of_nat)

text \<open>
  C5. Every record of a run carries the one timestamp of the run: the clock as it was
  read once before the loops, written as year, month, day, hour and minute
  (\<^verbatim>\<open>YYYY-MM-DD_HH-MM\<close>, sixteen characters). The \<^verbatim>\<open>lastclock\<close> of an item has no part in
  its record.
\<close>

theorem shared_run_timestamp:
  "collect ulower api now = Inr (ts, snap) \<Longrightarrow>
   (\<forall>r \<in> set snap. timestamp r = ts) \<and>
   ts = zfill 4 (str_of_nat (year now)) @ ascii ''-'' @ zfill 2 (str_of_nat (month now)) @
        ascii ''-'' @ zfill 2 (str_of_nat (day now)) @ ascii ''_'' @
        zfill 2 (str_of_nat (hour now)) @ ascii ''-'' @ zfill 2 (str_of_nat (minute now)) \<and>
   (year now < 10000 \<and> month now < 100 \<and> day now < 100 \<and> hour now < 100 \<and> minute now < 100
      \<longrightarrow> length ts = 16) \<and>
   (\<forall>item c. record_of_item ulower ts (item(ascii ''lastclock'' := c)) =
              record_of_item ulower ts item)"
proof (intro conjI impI allI)
  assume run: "collect ulower api now = Inr (ts, snap)"
  from collect_records(2) [OF run] show "\<forall>r \<in> set snap. timestamp r = ts"
    by (auto dest: record_of_item_host_ts)
  from collect_records(1) [OF run]
  show ts: "ts = zfill 4 (str_of_nat (year now)) @ ascii ''-'' @ zfill 2 (str_of_nat (month now)) @
        ascii ''-'' @ zfill 2 (str_of_nat (day now)) @ ascii ''_'' @
        zfill 2 (str_of_nat (hour now)) @ ascii ''-'' @ zfill 2 (str_of_nat (minute now))"
    by (simp only: strftime_run)
  {
    assume "year now < 10000 \<and> month now < 100 \<and> day now < 100 \<and> hour now < 100 \<and> minute now < 100"
    then have "length (zfill 4 (str_of_nat (year now))) = 4"
      "length (zfill 2 (str_of_nat (month now))) = 2"
      "length (zfill 2 (str_of_nat (day now))) = 2"
      "length (zfill 2 (str_of_nat (hour now))) = 2"
      "length (zfill 2 (str_of_nat (minute now))) = 2"
      by (simp_all add: length_zfill_str_of_nat)
    then show "length ts = 16" by (simp add: ts ascii_def)
  }
  fix item :: item and c
  show "record_of_item ulower ts (item(ascii ''lastclock'' := c)) = record_of_item ulower ts item"
    by (simp add: record_of_item_cases split: option.splits)
qed

theorem shared_run_timestamp_witness:
  "\<exists>snap. collect (\<lambda>s. s) example_api example_now = Inr (ascii ''2024-05-21_12-00'', snap) \<and>
     length snap = 3 \<and> list_all (\<lambda>r. timestamp r = ascii ''2024-05-21_12-00'') snap \<and>
     length (ascii ''2024-05-21_12-00'') = 16"
proof -
  from example_collect obtain snap where
    run: "collect (\<lambda>s. s) example_api example_now = Inr (ascii ''2024-05-21_12-00'', snap)"
    and len: "length snap = 3"
    by simp
  from shared_run_timestamp [OF run]
  have "\<forall>r \<in> set snap. timestamp r = ascii ''2024-05-21_12-00''" by blast
  with run len show ?thesis by (auto simp: list_all_iff ascii_def)
qed

section \<open>Items with a missing property\<close>

text \<open>
  C7, as the claim states it, fails: an item with no \<^verbatim>\<open>units\<close> gives no record with empty
  units, the lookup raises \<^verbatim>\<open>KeyError\<close>.
\<close>

theorem missing_units_counterexample:
  "record_of_item (\<lambda>s. s) (ascii ''2024-05-21_12-00'') example_no_units =
     Inl (KeyError (ascii ''units''))"
  by (simp add: record_of_item_cases example_defs should_redact_examples)

lemma items_loop_stops:
  "list_all2 (\<lambda>i r. record_of_item ulower ts i = Inr r) pre rs \<Longrightarrow>
   record_of_item ulower ts bad = Inl e \<Longrightarrow>
   items_loop ulower ts (pre @ bad # post) acc = Inl e"
proof (induction pre arbitrary: rs acc)
  case Nil
  then show ?case by simp
next
  case (Cons i pre)
  then obtain r rs' where "rs = r # rs'" "record_of_item ulower ts i = Inr r"
    "list_all2 (\<lambda>i r. record_of_item ulower ts i = Inr r) pre rs'"
    by (auto simp: list_all2_Cons1)
  with Cons.IH [OF _ Cons.prems(2), of rs' "acc @ [r]"] show ?case by simp
qed

text \<open>
  C7, amended. The mapper reads \<^verbatim>\<open>name\<close>, \<^verbatim>\<open>lastvalue\<close> and \<^verbatim>\<open>units\<close> in that order and
  raises \<^verbatim>\<open>KeyError\<close> at the first that is absent, where a redacted name makes up for an
  absent \<^verbatim>\<open>lastvalue\<close>; otherwise it gives exactly one record, with the fields shown. When
  every item of a list gives a record, the loop appends exactly these records, in the order
  of the items; when the items before one all give records and that one raises an
  exception, the loop ends with that exception.
\<close>

theorem one_record_per_complete_item:
  "record_of_item ulower ts item =
     (case item (ascii ''name'') of
        None \<Rightarrow> Inl (KeyError (ascii ''name''))
      | Some name \<Rightarrow>
          if should_redact ulower name then
            (case item (ascii ''units'') of
               None \<Rightarrow> Inl (KeyError (ascii ''units''))
             | Some u \<Rightarrow> Inr \<lparr>host = ascii ''[redacted]'', metric = ascii ''REDACTED'',
                              val = ascii ''REDACTED'', units = u, timestamp = ts\<rparr>)
          else
            (case item (ascii ''lastvalue'') of
               None \<Rightarrow> Inl (KeyError (ascii ''lastvalue''))
             | Some v \<Rightarrow>
                 (case item (ascii ''units'') of
                    None \<Rightarrow> Inl (KeyError (ascii ''units''))
                  | Some u \<Rightarrow> Inr \<lparr>host = ascii ''[redacted]'', metric = name,
                                   val = v, units = u, timestamp = ts\<rparr>))) \<and>
   (list_all2 (\<lambda>i r. record_of_item ulower ts i = Inr r) items rs \<longrightarrow>
      items_loop ulower ts items acc = Inr (acc @ rs)) \<and>
   (list_all2 (\<lambda>i r. record_of_item ulower ts i = Inr r) pre rs \<and>
    record_of_item ulower ts bad = Inl e \<longrightarrow>
      items_loop ulower ts (pre @ bad # post) acc = Inl e)"
proof (intro conjI impI)
  show "record_of_item ulower ts item =
     (case item (ascii ''name'') of
        None \<Rightarrow> Inl (KeyError (ascii ''name''))
      | Some name \<Rightarrow>
          if should_redact ulower name then
            (case item (ascii ''units'') of
               None \<Rightarrow> Inl (KeyError (ascii ''units''))
             | Some u \<Rightarrow> Inr \<lparr>host = ascii ''[redacted]'', metric = ascii ''REDACTED'',
                              val = ascii ''REDACTED'', units = u, timestamp = ts\<rparr>)
          else
            (case item (ascii ''lastvalue'') of
               None \<Rightarrow> Inl (KeyError (ascii ''lastvalue''))
             | Some v \<Rightarrow>
                 (case item (ascii ''units'') of
                    None \<Rightarrow> Inl (KeyError (ascii ''units''))
                  | Some u \<Rightarrow> Inr \<lparr>host = ascii ''[redacted]'', metric = name,
                                   val = v, units = u, timestamp = ts\<rparr>)))"
    by (rule record_of_item_cases)
  show "items_loop ulower ts items acc = Inr (acc @ rs)"
    if "list_all2 (\<lambda>i r. record_of_item ulower ts i = Inr r) items rs"
    using that by (rule items_loop_all)
  show "items_loop ulower ts (pre @ bad # post) acc = Inl e"
    if "list_all2 (\<lambda>i r. record_of_item ulower ts i = Inr r) pre rs \<and>
      record_of_item ulower ts bad = Inl e"
    using that by (blast intro: items_loop_stops)
qed

theorem one_record_per_complete_item_witness:
  "items_loop (\<lambda>s. s) (ascii ''T'') [example_host_name, example_cpu_usage] [] =
     Inr [\<lparr>host = ascii ''[redacted]'', metric = ascii ''REDACTED'', val = ascii ''REDACTED'',
           units = [], timestamp = ascii ''T''\<rparr>,
          \<lparr>host = ascii ''[redacted]'', metric = ascii ''CPU Usage'', val = ascii ''12.5'',
           units = ascii ''%'', timestamp = ascii ''T''\<rparr>] \<and>
   items_loop (\<lambda>s. s) (ascii ''T'') [example_cpu_usage, example_no_units, example_host_name] [] =
     Inl (KeyError (ascii ''units'')) \<and>
   record_of_item (\<lambda>s. s) (ascii ''T'') [ascii ''name'' \<mapsto> ascii ''CPU Usage''] =
     Inl (KeyError (ascii ''lastvalue''))"
proof -
  let ?r1 = "\<lparr>host = ascii ''[redacted]'', metric = ascii ''REDACTED'', val = ascii ''REDACTED'',
           units = [], timestamp = ascii ''T''\<rparr>"
  let ?r2 = "\<lparr>host = ascii ''[redacted]'', metric = ascii ''CPU Usage'', val = ascii ''12.5'',
           units = ascii ''%'', timestamp = ascii ''T''\<rparr>"
  have a: "record_of_item (\<lambda>s. s) (ascii ''T'') example_host_name = Inr ?r1"
    and b: "record_of_item (\<lambda>s. s) (ascii ''T'') example_cpu_usage = Inr ?r2"
    and c: "record_of_item (\<lambda>s. s) (ascii ''T'') example_no_units = Inl (KeyError (ascii ''units''))"
    by (simp_all add: record_of_item_cases example_defs should_redact_examples)
  have yes: "list_all2 (\<lambda>i r. record_of_item (\<lambda>s. s) (ascii ''T'') i = Inr r)
      [example_host_name, example_cpu_usage] [?r1, ?r2]"
    and pre: "list_all2 (\<lambda>i r. record_of_item (\<lambda>s. s) (ascii ''T'') i = Inr r)
      [example_cpu_usage] [?r2]"
    using a b by simp_all
  note inst = one_record_per_complete_item [of "\<lambda>s. s" "ascii ''T''" _ _ _ "[]"]
  from inst [of _ "[example_host_name, example_cpu_usage]" "[?r1, ?r2]"] yes
  have A: "items_loop (\<lambda>s. s) (ascii ''T'') [example_host_name, example_cpu_usage] [] =
      Inr ([] @ [?r1, ?r2])"
    by blast
  from inst [of _ _ "[?r2]" "[example_cpu_usage]" example_no_units "KeyError (ascii ''units'')"
      "[example_host_name]"] pre c
  have B: "items_loop (\<lambda>s. s) (ascii ''T'') ([example_cpu_usage] @ example_no_units # [example_host_name]) [] =
      Inl (KeyError (ascii ''units''))"
    by blast
  from inst [of "[ascii ''name'' \<mapsto> ascii ''CPU Usage'']"]
  have C: "record_of_item (\<lambda>s. s) (ascii ''T'') [ascii ''name'' \<mapsto> ascii ''CPU Usage''] =
      Inl (KeyError (ascii ''lastvalue''))"
    by (simp add: should_redact_examples)
  from A B C show ?thesis by (simp del: items_loop.simps)
qed

section \<open>Redacting twice\<close>

text \<open>
  C10. The marker \<^verbatim>\<open>REDACTED\<close> is itself redacted, and a record's metric, value and units
  fed back as an item give the same record again.
\<close>

theorem redaction_idempotent:
  "should_redact ulower (ascii ''REDACTED'') \<and>
   (record_of_item ulower ts item = Inr r \<longrightarrow>
      record_of_item ulower ts
        [ascii ''name'' \<mapsto> metric r, ascii ''lastvalue'' \<mapsto> val r, ascii ''units'' \<mapsto> units r] = Inr r)"
proof (intro conjI impI)
  show "should_redact ulower (ascii ''REDACTED'')" by (rule should_redact_examples)
  assume "record_of_item ulower ts item = Inr r"
  then show "record_of_item ulower ts
        [ascii ''name'' \<mapsto> metric r, ascii ''lastvalue'' \<mapsto> val r, ascii ''units'' \<mapsto> units r] = Inr r"
    by (auto simp: record_of_item_cases should_redact_examples split: option.splits if_splits)
qed

theorem redaction_idempotent_witness:
  "record_of_item (\<lambda>s. s) (ascii ''T'')
     [ascii ''name'' \<mapsto> ascii ''REDACTED'', ascii ''lastvalue'' \<mapsto> ascii ''REDACTED'',
      ascii ''units'' \<mapsto> []] =
     Inr \<lparr>host = ascii ''[redacted]'', metric = ascii ''REDACTED'', val = ascii ''REDACTED'',
          units = [], timestamp = ascii ''T''\<rparr> \<and>
   record_of_item (\<lambda>s. s) (ascii ''T'')
     [ascii ''name'' \<mapsto> ascii ''CPU Usage'', ascii ''lastvalue'' \<mapsto> ascii ''12.5'',
      ascii ''units'' \<mapsto> ascii ''%''] =
     Inr \<lparr>host = ascii ''[redacted]'', metric = ascii ''CPU Usage'', val = ascii ''12.5'',
          units = ascii ''%'', timestamp = ascii ''T''\<rparr>"
proof -
  have a: "record_of_item (\<lambda>s. s) (ascii ''T'') example_host_name =
     Inr \<lparr>host = ascii ''[redacted]'', metric = ascii ''REDACTED'', val = ascii ''REDACTED'',
          units = [], timestamp = ascii ''T''\<rparr>"
    and b: "record_of_item (\<lambda>s. s) (ascii ''T'') example_cpu_usage =
     Inr \<lparr>host = ascii ''[redacted]'', metric = ascii ''CPU Usage'', val = ascii ''12.5'',
          units = ascii ''%'', timestamp = ascii ''T''\<rparr>"
    by (simp_all add: record_of_item_cases example_defs should_redact_examples)
  from redaction_idempotent [of "\<lambda>s. s" "ascii ''T''" example_host_name, THEN conjunct2, rule_format, OF a]
    redaction_idempotent [of "\<lambda>s. s" "ascii ''T''" example_cpu_usage, THEN conjunct2, rule_format, OF b]
  show ?thesis by simp
qed

section \<open>The summary depends on the count and on the clock\<close>

lemma strftime_readme:
  "strftime now (ascii ''%Y-%m-%d %H:%M UTC'') =
     zfill 4 (str_of_nat (year now)) @ ascii ''-'' @ zfill 2 (str_of_nat (month now)) @ ascii ''-'' @
     zfill 2 (str_of_nat (day now)) @ ascii '' '' @ zfill 2 (str_of_nat (hour now)) @ ascii '':'' @
     zfill 2 (str_of_nat (minute now)) @ ascii '' UTC''"
  by (simp add: ascii_def directive_def)

lemma generate_readme_parts:
  "\<exists>head mid tail. \<forall>n now.
     generate_readme n now =
       head @ strftime now (ascii ''%Y-%m-%d %H:%M UTC'') @ mid @ str_of_nat n @ tail \<and>
     mid = [10] @ ascii ''- Total Metrics Collected: ''"
  unfolding generate_readme_def
  apply (rule exI [of _ "ascii ''# Zabbix Metrics Archive'' @ [10] @ [10] @ [9888, 65039] @
     ascii '' **Note**: Sensitive fields like hostnames and system descriptions are redacted.'' @ [10] @
     [10] @ ascii ''## Dataset Info'' @ [10] @ ascii ''- Last Updated: ''"])
  apply (rule exI [of _ "[10] @ ascii ''- Total Metrics Collected: ''"])
  apply (rule exI)
  apply (intro allI conjI)
   apply (simp only: append_assoc)
  apply (rule refl)
  done

lemma digits_str_of_nat: "\<forall>c \<in> set (str_of_nat n). 48 \<le> c \<and> c \<le> 57"
proof (induction n rule: str_of_nat.induct)
  case (1 n)
  show ?case
  proof (cases "n < 10")
    case True
    then show ?thesis by (simp add: str_of_nat.simps [of n])
  next
    case False
    have "n mod 10 < 10" by simp
    then have "48 + n mod 10 \<le> 57" by linarith
    with False 1 show ?thesis by (simp add: str_of_nat.simps [of n])
  qed
qed

lemma value_str_of_nat: "foldl (\<lambda>a d. a * 10 + (d - 48)) 0 (str_of_nat n) = n"
proof (induction n rule: str_of_nat.induct)
  case (1 n)
  show ?case
  proof (cases "n < 10")
    case True
    then show ?thesis by (simp add: str_of_nat.simps [of n])
  next
    case False
    with 1 show ?thesis by (simp add: str_of_nat.simps [of n])
  qed
qed

lemma str_of_nat_inject:
  assumes "str_of_nat m = str_of_nat n"
  shows "m = n"
proof -
  have "m = foldl (\<lambda>a d. a * 10 + (d - 48)) 0 (str_of_nat m)"
    by (simp only: value_str_of_nat)
  also have "\<dots> = foldl (\<lambda>a d. a * 10 + (d - 48)) 0 (str_of_nat n)"
    by (simp only: assms)
  also have "\<dots> = n" by (rule value_str_of_nat)
  finally show ?thesis .
qed

lemma split_at_newline:
  "10 \<notin> set a \<Longrightarrow> 10 \<notin> set b \<Longrightarrow> a @ 10 # x = b @ 10 # y \<Longrightarrow> a = b \<and> x = y"
proof (induction a arbitrary: b)
  case Nil
  then show ?case by (cases b) auto
next
  case (Cons c a)
  then show ?case by (cases b) auto
qed

lemma no_newline_str_of_nat: "10 \<notin> set (str_of_nat n)"
  using digits_str_of_nat [of n] by auto

lemma no_newline_zfill: "10 \<notin> set (zfill w (str_of_nat n))"
  by (simp add: zfill_def no_newline_str_of_nat)

lemma no_newline_readme_time: "10 \<notin> set (strftime now (ascii ''%Y-%m-%d %H:%M UTC''))"
  unfolding strftime_readme by (simp add: no_newline_zfill) (simp add: ascii_def)

lemma generate_readme_split:
  "\<exists>head tail. \<forall>n now.
     generate_readme n now =
       head @ (strftime now (ascii ''%Y-%m-%d %H:%M UTC'') @ 10 #
         (ascii ''- Total Metrics Collected: '' @ (str_of_nat n @ 10 # tail)))"
  unfolding generate_readme_def
  apply (rule exI [of _ "ascii ''# Zabbix Metrics Archive'' @ [10] @ [10] @ [9888, 65039] @
     ascii '' **Note**: Sensitive fields like hostnames and system descriptions are redacted.'' @ [10] @
     [10] @ ascii ''## Dataset Info'' @ [10] @ ascii ''- Last Updated: ''"])
  apply (rule exI)
  apply (intro allI)
  apply (simp only: append_assoc append.simps)
  done

lemma generate_readme_inject:
  assumes "generate_readme n now = generate_readme n' now'"
  shows "n = n' \<and>
    strftime now (ascii ''%Y-%m-%d %H:%M UTC'') = strftime now' (ascii ''%Y-%m-%d %H:%M UTC'')"
proof -
  let ?t = "strftime now (ascii ''%Y-%m-%d %H:%M UTC'')"
  let ?t' = "strftime now' (ascii ''%Y-%m-%d %H:%M UTC'')"
  from generate_readme_split obtain head tail where split: "\<And>k d. generate_readme k d =
      head @ (strftime d (ascii ''%Y-%m-%d %H:%M UTC'') @ 10 #
        (ascii ''- Total Metrics Collected: '' @ (str_of_nat k @ 10 # tail)))"
    by blast
  from assms have "?t @ 10 # (ascii ''- Total Metrics Collected: '' @ (str_of_nat n @ 10 # tail)) =
      ?t' @ 10 # (ascii ''- Total Metrics Collected: '' @ (str_of_nat n' @ 10 # tail))"
    by (simp only: split same_append_eq)
  from split_at_newline [OF no_newline_readme_time no_newline_readme_time this]
  have t: "?t = ?t'" and "str_of_nat n @ 10 # tail = str_of_nat n' @ 10 # tail"
    by simp_all
  from split_at_newline [OF no_newline_str_of_nat no_newline_str_of_nat this(2)]
  have "str_of_nat n = str_of_nat n'" by simp
  with t show ?thesis by (simp add: str_of_nat_inject)
qed


lemma value_zfill: "foldl (\<lambda>a d. a * 10 + (d - 48)) 0 (zfill w (str_of_nat n)) = n"
proof -
  have "foldl (\<lambda>a d. a * 10 + (d - 48)) 0 (replicate k 48) = (0::nat)" for k
    by (induction k) simp_all
  then show ?thesis by (simp add: zfill_def value_str_of_nat)
qed

lemma zfill_inject:
  assumes "zfill w (str_of_nat m) = zfill w (str_of_nat n)"
  shows "m = n"
proof -
  have "m = foldl (\<lambda>a d. a * 10 + (d - 48)) 0 (zfill w (str_of_nat m))"
    by (simp only: value_zfill)
  also have "\<dots> = foldl (\<lambda>a d. a * 10 + (d - 48)) 0 (zfill w (str_of_nat n))"
    by (simp only: assms)
  also have "\<dots> = n" by (rule value_zfill)
  finally show ?thesis .
qed

lemma readme_time_inject:
  assumes "year now < 10000" "month now < 100" "day now < 100" "hour now < 100" "minute now < 100"
    and "year now' < 10000" "month now' < 100" "day now' < 100" "hour now' < 100" "minute now' < 100"
    and "strftime now (ascii ''%Y-%m-%d %H:%M UTC'') = strftime now' (ascii ''%Y-%m-%d %H:%M UTC'')"
  shows "year now = year now' \<and> month now = month now' \<and> day now = day now' \<and>
    hour now = hour now' \<and> minute now = minute now'"
proof -
  from assms(1-10) have len:
    "length (zfill 4 (str_of_nat (year now))) = length (zfill 4 (str_of_nat (year now')))"
    "length (zfill 2 (str_of_nat (month now))) = length (zfill 2 (str_of_nat (month now')))"
    "length (zfill 2 (str_of_nat (day now))) = length (zfill 2 (str_of_nat (day now')))"
    "length (zfill 2 (str_of_nat (hour now))) = length (zfill 2 (str_of_nat (hour now')))"
    "length (zfill 2 (str_of_nat (minute now))) = length (zfill 2 (str_of_nat (minute now')))"
    by (simp_all add: length_zfill_str_of_nat)
  from assms(11) have "zfill 4 (str_of_nat (year now)) = zfill 4 (str_of_nat (year now')) \<and>
      zfill 2 (str_of_nat (month now)) = zfill 2 (str_of_nat (month now')) \<and>
      zfill 2 (str_of_nat (day now)) = zfill 2 (str_of_nat (day now')) \<and>
      zfill 2 (str_of_nat (hour now)) = zfill 2 (str_of_nat (hour now')) \<and>
      zfill 2 (str_of_nat (minute now)) = zfill 2 (str_of_nat (minute now'))"
    unfolding strftime_readme using len by (simp add: ascii_def)
  then show ?thesis by (blast dest: zfill_inject)
qed

text \<open>
  C9, as the claim states it, fails: the time is no input of \<^verbatim>\<open>generate_readme\<close>. The function
  takes the count alone and reads the clock in its body, so two calls with the same argument
  give different texts when the clock has moved to another minute between them.
\<close>

theorem same_count_other_minute_counterexample:
  "generate_readme 3 example_now \<noteq> generate_readme 3 (example_now\<lparr>minute := 1\<rparr>)"
proof
  assume "generate_readme 3 example_now = generate_readme 3 (example_now\<lparr>minute := 1\<rparr>)"
  then have "strftime example_now (ascii ''%Y-%m-%d %H:%M UTC'') =
      strftime (example_now\<lparr>minute := 1\<rparr>) (ascii ''%Y-%m-%d %H:%M UTC'')"
    by (blast dest: generate_readme_inject)
  then show False
    by (simp add: example_defs directive_def zfill_def str_of_nat.simps ascii_def)
qed

text \<open>
  C9, amended. \<^verbatim>\<open>generate_readme\<close> has one input, the count; the time is read from the clock
  inside the function. Its result is the template below around the count and the clock's
  year, month, day, hour and minute, so it is determined by the count and the value of that
  one clock read, to the minute: two calls with the same count whose clock reads agree to the
  minute give the same text, and, for clock values in the range of \<^verbatim>\<open>datetime\<close>, two calls give
  the same text only if the counts are equal and the clock reads agree to the minute.
\<close>

theorem summary_determined_by_count_and_minute:
  "generate_readme metrics_count now =
     ascii ''# Zabbix Metrics Archive'' @ [10] @
     [10] @
     [9888, 65039] @
     ascii '' **Note**: Sensitive fields like hostnames and system descriptions are redacted.'' @ [10] @
     [10] @
     ascii ''## Dataset Info'' @ [10] @
     ascii ''- Last Updated: '' @
       zfill 4 (str_of_nat (year now)) @ ascii ''-'' @ zfill 2 (str_of_nat (month now)) @
       ascii ''-'' @ zfill 2 (str_of_nat (day now)) @ ascii '' '' @
       zfill 2 (str_of_nat (hour now)) @ ascii '':'' @ zfill 2 (str_of_nat (minute now)) @
       ascii '' UTC'' @ [10] @
     ascii ''- Total Metrics Collected: '' @ str_of_nat metrics_count @ [10] @
     ascii ''- Update Frequency: Every 3 hours'' @ [10] @
     [10] @
     ascii ''## Data Structure'' @ [10] @
     ascii ''```json'' @ [10] @
     ascii ''{'' @ [10] @
     ascii ''    '' @ quoted (ascii ''host'') @ ascii '': '' @ quoted (ascii ''redacted'') @ ascii '','' @ [10] @
     ascii ''    '' @ quoted (ascii ''metric'') @ ascii '': '' @ quoted (ascii ''CPU Usage'') @ ascii '','' @ [10] @
     ascii ''    '' @ quoted (ascii ''value'') @ ascii '': '' @ quoted (ascii ''12.5'') @ ascii '','' @ [10] @
     ascii ''    '' @ quoted (ascii ''units'') @ ascii '': '' @ quoted (ascii ''%'') @ ascii '','' @ [10] @
     ascii ''    '' @ quoted (ascii ''timestamp'') @ ascii '': '' @ quoted (ascii ''2024-05-21T12:00:00'') @ [10] @
     ascii ''}'' @ [10] @
     ascii ''```'' @ [10] \<and>
   (year now = year now' \<and> month now = month now' \<and> day now = day now' \<and>
    hour now = hour now' \<and> minute now = minute now' \<longrightarrow>
      generate_readme metrics_count now = generate_readme metrics_count now') \<and>
   (year now < 10000 \<and> month now < 100 \<and> day now < 100 \<and> hour now < 100 \<and> minute now < 100 \<and>
    year now' < 10000 \<and> month now' < 100 \<and> day now' < 100 \<and> hour now' < 100 \<and> minute now' < 100 \<longrightarrow>
      (generate_readme metrics_count now = generate_readme metrics_count' now' \<longleftrightarrow>
         metrics_count = metrics_count' \<and> year now = year now' \<and> month now = month now' \<and>
         day now = day now' \<and> hour now = hour now' \<and> minute now = minute now'))"
proof (intro conjI impI)
  show "generate_readme metrics_count now =
     ascii ''# Zabbix Metrics Archive'' @ [10] @
     [10] @
     [9888, 65039] @
     ascii '' **Note**: Sensitive fields like hostnames and system descriptions are redacted.'' @ [10] @
     [10] @
     ascii ''## Dataset Info'' @ [10] @
     ascii ''- Last Updated: '' @
       zfill 4 (str_of_nat (year now)) @ ascii ''-'' @ zfill 2 (str_of_nat (month now)) @
       ascii ''-'' @ zfill 2 (str_of_nat (day now)) @ ascii '' '' @
       zfill 2 (str_of_nat (hour now)) @ ascii '':'' @ zfill 2 (str_of_nat (minute now)) @
       ascii '' UTC'' @ [10] @
     ascii ''- Total Metrics Collected: '' @ str_of_nat metrics_count @ [10] @
     ascii ''- Update Frequency: Every 3 hours'' @ [10] @
     [10] @
     ascii ''## Data Structure'' @ [10] @
     ascii ''```json'' @ [10] @
     ascii ''{'' @ [10] @
     ascii ''    '' @ quoted (ascii ''host'') @ ascii '': '' @ quoted (ascii ''redacted'') @ ascii '','' @ [10] @
     ascii ''    '' @ quoted (ascii ''metric'') @ ascii '': '' @ quoted (ascii ''CPU Usage'') @ ascii '','' @ [10] @
     ascii ''    '' @ quoted (ascii ''value'') @ ascii '': '' @ quoted (ascii ''12.5'') @ ascii '','' @ [10] @
     ascii ''    '' @ quoted (ascii ''units'') @ ascii '': '' @ quoted (ascii ''%'') @ ascii '','' @ [10] @
     ascii ''    '' @ quoted (ascii ''timestamp'') @ ascii '': '' @ quoted (ascii ''2024-05-21T12:00:00'') @ [10] @
     ascii ''}'' @ [10] @
     ascii ''```'' @ [10]"
    by (simp only: generate_readme_def strftime_readme append_assoc)
  have same: "generate_readme k d = generate_readme k d'"
    if "year d = year d' \<and> month d = month d' \<and> day d = day d' \<and>
      hour d = hour d' \<and> minute d = minute d'" for k d d'
  proof -
    from that have "strftime d (ascii ''%Y-%m-%d %H:%M UTC'') = strftime d' (ascii ''%Y-%m-%d %H:%M UTC'')"
      by (simp only: strftime_readme)
    then show ?thesis by (simp only: generate_readme_def)
  qed
  show "generate_readme metrics_count now = generate_readme metrics_count now'"
    if "year now = year now' \<and> month now = month now' \<and> day now = day now' \<and>
      hour now = hour now' \<and> minute now = minute now'"
    using that by (rule same)
  show "generate_readme metrics_count now = generate_readme metrics_count' now' \<longleftrightarrow>
         metrics_count = metrics_count' \<and> year now = year now' \<and> month now = month now' \<and>
         day now = day now' \<and> hour now = hour now' \<and> minute now = minute now'"
    if valid: "year now < 10000 \<and> month now < 100 \<and> day now < 100 \<and> hour now < 100 \<and> minute now < 100 \<and>
    year now' < 10000 \<and> month now' < 100 \<and> day now' < 100 \<and> hour now' < 100 \<and> minute now' < 100"
  proof
    assume "generate_readme metrics_count now = generate_readme metrics_count' now'"
    from generate_readme_inject [OF this]
    have "metrics_count = metrics_count'"
      and "strftime now (ascii ''%Y-%m-%d %H:%M UTC'') = strftime now' (ascii ''%Y-%m-%d %H:%M UTC'')"
      by simp_all
    with valid readme_time_inject [of now now']
    show "metrics_count = metrics_count' \<and> year now = year now' \<and> month now = month now' \<and>
         day now = day now' \<and> hour now = hour now' \<and> minute now = minute now'"
      by blast
  next
    assume "metrics_count = metrics_count' \<and> year now = year now' \<and> month now = month now' \<and>
         day now = day now' \<and> hour now = hour now' \<and> minute now = minute now'"
    with same [of now now' metrics_count] show "generate_readme metrics_count now = generate_readme metrics_count' now'"
      by simp
  qed
qed

theorem summary_determined_by_count_and_minute_witness:
  "generate_readme 3 example_now = generate_readme 3 (example_now\<lparr>second := 59, microsecond := 123456\<rparr>) \<and>
   generate_readme 3 example_now \<noteq> generate_readme 4 example_now \<and>
   generate_readme 3 example_now \<noteq> generate_readme 3 (example_now\<lparr>hour := 13\<rparr>)"
proof -
  have valid: "year example_now < 10000 \<and> month example_now < 100 \<and> day example_now < 100 \<and>
      hour example_now < 100 \<and> minute example_now < 100"
    by (simp add: example_defs)
  have a: "generate_readme 3 example_now =
      generate_readme 3 (example_now\<lparr>second := 59, microsecond := 123456\<rparr>)"
    by (rule summary_determined_by_count_and_minute
        [of 3 example_now "example_now\<lparr>second := 59, microsecond := 123456\<rparr>" 3,
          THEN conjunct2, THEN conjunct1, rule_format]) simp
  have b: "generate_readme 3 example_now \<noteq> generate_readme 4 example_now"
    using summary_determined_by_count_and_minute
      [of 3 example_now example_now 4, THEN conjunct2, THEN conjunct2, rule_format] valid
    by simp
  have c: "generate_readme 3 example_now \<noteq> generate_readme 3 (example_now\<lparr>hour := 13\<rparr>)"
    using summary_determined_by_count_and_minute
      [of 3 example_now "example_now\<lparr>hour := 13\<rparr>" 3, THEN conjunct2, THEN conjunct2, rule_format]
      valid
    by (simp add: example_defs)
  from a b c show ?thesis by blast
qed


section \<open>The layout of the two documents\<close>

lemma newline_indent_levels:
  "newline_indent 0 = [10]"
  "newline_indent (Suc 0) = 10 # ascii ''  ''"
  "newline_indent (Suc (Suc 0)) = 10 # ascii ''    ''"
  by (simp_all add: newline_indent_def ascii_def eval_nat_numeral)



lemma json_dump_layout:
  "json_dump snap =
     (if snap = [] then ascii ''[]''
      else ascii ''['' @ [10] @ ascii ''  '' @
           join (ascii '','' @ [10] @ ascii ''  '') (map (\<lambda>r. iterencode (Suc 0) (json_of_record r)) snap) @
           [10] @ ascii '']'')"
  by (simp add: json_dump_def newline_indent_levels comp_def) (simp add: ascii_def)

lemma writerow_fieldnames: "writerow fieldnames = ascii ''host,metric,value,units,timestamp'' @ [13, 10]"
  by (simp add: writerow_def fieldnames_def csv_field_def csv_needs_quotes_def ascii_def)


section \<open>A run with no hosts\<close>

lemma total0:
  "ascii ''- Total Metrics Collected: '' @ str_of_nat 0 @ rest = ascii ''- Total Metrics Collected: 0'' @ rest"
  by (simp add: str_of_nat.simps [of 0] ascii_def)

lemma generate_readme_0:
  "generate_readme 0 now' =
      (ascii ''# Zabbix Metrics Archive'' @ [10] @ [10] @ [9888, 65039] @
       ascii '' **Note**: Sensitive fields like hostnames and system descriptions are redacted.'' @ [10] @
       [10] @ ascii ''## Dataset Info'' @ [10] @ ascii ''- Last Updated: '' @
       strftime now' (ascii ''%Y-%m-%d %H:%M UTC'')) @
      [10] @ ascii ''- Total Metrics Collected: 0'' @ [10] @
      (ascii ''- Update Frequency: Every 3 hours'' @ [10] @
       [10] @
       ascii ''## Data Structure'' @ [10] @
       ascii ''```json'' @ [10] @
       ascii ''{'' @ [10] @
       ascii ''    '' @ quoted (ascii ''host'') @ ascii '': '' @ quoted (ascii ''redacted'') @ ascii '','' @ [10] @
       ascii ''    '' @ quoted (ascii ''metric'') @ ascii '': '' @ quoted (ascii ''CPU Usage'') @ ascii '','' @ [10] @
       ascii ''    '' @ quoted (ascii ''value'') @ ascii '': '' @ quoted (ascii ''12.5'') @ ascii '','' @ [10] @
       ascii ''    '' @ quoted (ascii ''units'') @ ascii '': '' @ quoted (ascii ''%'') @ ascii '','' @ [10] @
       ascii ''    '' @ quoted (ascii ''timestamp'') @ ascii '': '' @ quoted (ascii ''2024-05-21T12:00:00'') @ [10] @
       ascii ''}'' @ [10] @
       ascii ''```'' @ [10])"
    by (simp only: generate_readme_def append_assoc total0)


text \<open>
  C8. When the API returns no hosts the snapshot is empty: the JSON document is \<^verbatim>\<open>[]\<close>,
  the CSV document is the header row alone, and the summary gives the count 0.
\<close>

theorem no_hosts_empty_snapshot:
  "zabbix_get_hosts api = Inr [] \<Longrightarrow>
   (\<exists>ts. collect ulower api now = Inr (ts, [])) \<and>
   (\<exists>out. main ulower api now now' = Inr out \<and>
      json_content out = ascii ''[]'' \<and>
      csv_content out = ascii ''host,metric,value,units,timestamp'' @ [13, 10] \<and>
      readme_content out = generate_readme 0 now' \<and>
      (\<exists>p q. readme_content out = p @ [10] @ ascii ''- Total Metrics Collected: 0'' @ [10] @ q))"
proof -
  assume hosts: "zabbix_get_hosts api = Inr []"
  then have run: "collect ulower api now = Inr (strftime now (ascii ''%Y-%m-%d_%H-%M''), [])"
    by (simp add: collect_def)
  note generate_readme_0 [of now']
  then have "\<exists>p q. generate_readme 0 now' = p @ [10] @ ascii ''- Total Metrics Collected: 0'' @ [10] @ q"
    by blast
  with run show ?thesis
    by (simp add: main_def json_dump_layout csv_dump_def writerow_fieldnames)
qed

theorem no_hosts_empty_snapshot_witness:
  "\<exists>out. main (\<lambda>s. s) no_hosts_api example_now example_now = Inr out \<and>
      json_content out = ascii ''[]'' \<and>
      csv_content out = ascii ''host,metric,value,units,timestamp'' @ [13, 10] \<and>
      json_file out = ascii ''data/2024-05-21_12-00.json''"
proof -
  have hosts: "zabbix_get_hosts no_hosts_api = Inr []" by (simp add: no_hosts_api_def)
  have "strftime example_now (ascii ''%Y-%m-%d_%H-%M'') = ascii ''2024-05-21_12-00''"
    by (simp add: example_defs directive_def zfill_def str_of_nat.simps ascii_def)
  with no_hosts_empty_snapshot [OF hosts, of "\<lambda>s. s" example_now example_now] hosts
  show ?thesis
    by (auto simp: main_def collect_def) (simp add: ascii_def)
qed

section \<open>Reading back the JSON document\<close>





lemma length_hex4 [simp]: "length (hex4 n) = 4"
  by (simp add: hex4_def)






















section \<open>Reading back the CSV document\<close>


















section \<open>The records of a run\<close>











section \<open>The shape of the two documents\<close>




section \<open>Reading the documents back\<close>





end
